theory Spec2Isabelle
  imports Complex_Main
begin

section \<open>Python values and built-ins used by the carousel wrapper\<close>

text \<open>
  The wrapper in \<^verbatim>\<open>flet_carousel_slider.py\<close> is written in Python. The built-ins it calls
  (\<^verbatim>\<open>str.split\<close>, \<^verbatim>\<open>int\<close>, \<^verbatim>\<open>float\<close>, \<^verbatim>\<open>str.lower\<close>, the formatting of an
  integer inside an f-string) are modelled here for ASCII text. An exception is a value
  of type \<open>error\<close>; a call that may raise returns \<open>error + 'a\<close>, with \<open>Inl\<close> the exception.
\<close>

datatype error = ValueError | IndexError

text \<open>
  A float is represented by the rational number its literal denotes, or by one of the
  three special values; rounding to binary64 is not modelled. The wrapper never computes
  with floats, it only stores them and hands them back.
\<close>

datatype pyfloat = Fin rat | PosInf | NegInf | NaN

datatype pyval = PNone | PBool bool | PInt int | PFloat pyfloat | PStr string

subsection \<open>Formatting an integer: \<^verbatim>\<open>str(n)\<close>, \<^verbatim>\<open>f"{n}"\<close>\<close>

definition digit_chr :: "nat \<Rightarrow> char" where
  "digit_chr d = ''0123456789'' ! d"

function str_nat :: "nat \<Rightarrow> string" where
  "str_nat n = (if n < 10 then [digit_chr n] else str_nat (n div 10) @ [digit_chr (n mod 10)])"
  by pat_completeness auto
termination
  by (relation "measure id") auto

declare str_nat.simps [simp del]

definition str_int :: "int \<Rightarrow> string" where
  "str_int i = (if i < 0 then CHR ''-'' # str_nat (nat (- i)) else str_nat (nat i))"

subsection \<open>Parsing an integer: \<^verbatim>\<open>int(s)\<close>\<close>

text \<open>
  \<^verbatim>\<open>int(s)\<close> in base ten: surrounding white space is dropped, one sign is allowed, then
  decimal digits, where a single underscore may stand between two digits. Anything else
  raises \<^verbatim>\<open>ValueError\<close>. (The interpreter's configurable limit on the number of digits
  of a conversion is a run-time setting and is not modelled.)
\<close>

definition is_space :: "char \<Rightarrow> bool" where
  "is_space c = (c = CHR '' '' \<or> c = CHR 0x09 \<or> c = CHR 0x0A \<or> c = CHR 0x0B
                 \<or> c = CHR 0x0C \<or> c = CHR 0x0D)"

definition strip :: "string \<Rightarrow> string" where
  "strip s = rev (dropWhile is_space (rev (dropWhile is_space s)))"

definition digit_val :: "char \<Rightarrow> nat option" where
  "digit_val c =
     (let n = (of_char c :: nat) in if 48 \<le> n \<and> n \<le> 57 then Some (n - 48) else None)"

text \<open>\<open>more_digits s\<close> reads the rest of a digit sequence, after at least one digit.\<close>

fun more_digits :: "string \<Rightarrow> nat list option" where
  "more_digits [] = Some []"
| "more_digits (c # cs) =
     (if c = CHR ''_'' then
        (case cs of
           [] \<Rightarrow> None
         | d # ds \<Rightarrow>
             (case digit_val d of
                None \<Rightarrow> None
              | Some v \<Rightarrow> map_option ((#) v) (more_digits ds)))
      else
        (case digit_val c of
           None \<Rightarrow> None
         | Some v \<Rightarrow> map_option ((#) v) (more_digits cs)))"

definition digit_seq :: "string \<Rightarrow> nat list option" where
  "digit_seq s =
     (case s of
        [] \<Rightarrow> None
      | c # cs \<Rightarrow>
          (case digit_val c of
             None \<Rightarrow> None
           | Some v \<Rightarrow> map_option ((#) v) (more_digits cs)))"

definition nat_of_digits :: "nat list \<Rightarrow> nat" where
  "nat_of_digits ds = foldl (\<lambda>a d. 10 * a + d) 0 ds"

definition is_sign :: "char \<Rightarrow> bool" where
  "is_sign c = (c = CHR ''+'' \<or> c = CHR ''-'')"

definition negative :: "string \<Rightarrow> bool" where
  "negative t = (case t of [] \<Rightarrow> False | c # _ \<Rightarrow> c = CHR ''-'')"

definition unsigned :: "string \<Rightarrow> string" where
  "unsigned t = (case t of [] \<Rightarrow> [] | c # cs \<Rightarrow> if is_sign c then cs else t)"

definition py_int :: "string \<Rightarrow> error + int" where
  "py_int s =
     (let t = strip s in
      case digit_seq (unsigned t) of
        None \<Rightarrow> Inl ValueError
      | Some ds \<Rightarrow> Inr (if negative t then - int (nat_of_digits ds) else int (nat_of_digits ds)))"

subsection \<open>Lower-casing: \<^verbatim>\<open>s.lower()\<close>\<close>

text \<open>An upper-case ASCII letter becomes lower-case by setting bit 5 of its code.\<close>

definition lower_chr :: "char \<Rightarrow> char" where
  "lower_chr c =
     (let n = (of_char c :: nat) in
      if 65 \<le> n \<and> n \<le> 90
      then (case c of Char b0 b1 b2 b3 b4 b5 b6 b7 \<Rightarrow> Char b0 b1 b2 b3 b4 True b6 b7)
      else c)"

definition lower :: "string \<Rightarrow> string" where
  "lower s = map lower_chr s"

subsection \<open>Parsing a float: \<^verbatim>\<open>float(s)\<close>\<close>

text \<open>
  \<^verbatim>\<open>float(s)\<close>: surrounding white space is dropped and one sign is allowed. What follows
  is \<^verbatim>\<open>inf\<close>, \<^verbatim>\<open>infinity\<close> or \<^verbatim>\<open>nan\<close> in any letter case, or a decimal number: digits,
  an optional point with digits after it (at least one digit on one side of the point)
  and an optional exponent \<^verbatim>\<open>e\<close> with an optional sign and digits. Every run of digits may
  hold single underscores between digits. Anything else raises \<^verbatim>\<open>ValueError\<close>.
\<close>

definition opt_digit_seq :: "string \<Rightarrow> nat list option" where
  "opt_digit_seq s = (if s = [] then Some [] else digit_seq s)"

definition is_exp_mark :: "char \<Rightarrow> bool" where
  "is_exp_mark c = (c = CHR ''e'' \<or> c = CHR ''E'')"

definition exponent :: "string \<Rightarrow> int option" where
  "exponent r =
     (case r of
        [] \<Rightarrow> Some 0
      | _ # es \<Rightarrow>
          (case digit_seq (unsigned es) of
             None \<Rightarrow> None
           | Some ds \<Rightarrow> Some (if negative es then - int (nat_of_digits ds) else int (nat_of_digits ds))))"

definition pow10 :: "int \<Rightarrow> rat" where
  "pow10 e = (if 0 \<le> e then 10 ^ nat e else 1 / 10 ^ nat (- e))"

definition decimal :: "string \<Rightarrow> rat option" where
  "decimal b =
     (let mant = takeWhile (\<lambda>c. \<not> is_exp_mark c) b;
          ip = takeWhile (\<lambda>c. c \<noteq> CHR ''.'') mant;
          fp = (case dropWhile (\<lambda>c. c \<noteq> CHR ''.'') mant of [] \<Rightarrow> [] | _ # fs \<Rightarrow> fs)
      in if ip = [] \<and> fp = [] then None
         else
           (case opt_digit_seq ip of
              None \<Rightarrow> None
            | Some ids \<Rightarrow>
                (case opt_digit_seq fp of
                   None \<Rightarrow> None
                 | Some fds \<Rightarrow>
                     (case exponent (dropWhile (\<lambda>c. \<not> is_exp_mark c) b) of
                        None \<Rightarrow> None
                      | Some e \<Rightarrow>
                          Some (of_nat (nat_of_digits (ids @ fds)) * pow10 (e - int (length fds)))))))"

definition py_float :: "string \<Rightarrow> error + pyfloat" where
  "py_float s =
     (let t = strip s; b = unsigned t in
      if lower b = ''inf'' \<or> lower b = ''infinity'' then Inr (if negative t then NegInf else PosInf)
      else if lower b = ''nan'' then Inr NaN
      else
        (case decimal b of
           None \<Rightarrow> Inl ValueError
         | Some q \<Rightarrow> Inr (Fin (if negative t then - q else q))))"

subsection \<open>Splitting a string: \<^verbatim>\<open>s.split(sep)\<close> with a one-character separator\<close>

fun py_split :: "char \<Rightarrow> string \<Rightarrow> string list" where
  "py_split sep [] = [[]]"
| "py_split sep (c # cs) =
     (if c = sep then [] # py_split sep cs
      else (case py_split sep cs of
              [] \<Rightarrow> [[c]]
            | x # xs \<Rightarrow> (c # x) # xs))"

section \<open>Enumerations\<close>

datatype ScrollDirection = HORIZONTAL | VERTICAL

fun ScrollDirection_value :: "ScrollDirection \<Rightarrow> string" where
  "ScrollDirection_value HORIZONTAL = ''horizontal''"
| "ScrollDirection_value VERTICAL = ''vertical''"

datatype AnimateToCurve =
    LINEAR | EASE_IN | EASE_OUT | EASE_IN_OUT | BOUNCE_IN | BOUNCE_OUT
  | ELASTIC_IN | ELASTIC_OUT | DECELERATE | FAST_OUT_SLOW_IN

fun AnimateToCurve_value :: "AnimateToCurve \<Rightarrow> string" where
  "AnimateToCurve_value LINEAR = ''linear''"
| "AnimateToCurve_value EASE_IN = ''easeIn''"
| "AnimateToCurve_value EASE_OUT = ''easeOut''"
| "AnimateToCurve_value EASE_IN_OUT = ''easeInOut''"
| "AnimateToCurve_value BOUNCE_IN = ''bounceIn''"
| "AnimateToCurve_value BOUNCE_OUT = ''bounceOut''"
| "AnimateToCurve_value ELASTIC_IN = ''elasticIn''"
| "AnimateToCurve_value ELASTIC_OUT = ''elasticOut''"
| "AnimateToCurve_value DECELERATE = ''decelerate''"
| "AnimateToCurve_value FAST_OUT_SLOW_IN = ''fastOutSlowIn''"

datatype EnlargeStrategy = SCALE | HEIGHT | ZOOM

fun EnlargeStrategy_value :: "EnlargeStrategy \<Rightarrow> string" where
  "EnlargeStrategy_value SCALE = ''scale''"
| "EnlargeStrategy_value HEIGHT = ''height''"
| "EnlargeStrategy_value ZOOM = ''zoom''"

datatype ClipBehavior = NONE | HARD_EDGE | ANTI_ALIAS | ANTI_ALIAS_WITH_SAVE_LAYER

fun ClipBehavior_value :: "ClipBehavior \<Rightarrow> string" where
  "ClipBehavior_value NONE = ''none''"
| "ClipBehavior_value HARD_EDGE = ''hardEdge''"
| "ClipBehavior_value ANTI_ALIAS = ''antiAlias''"
| "ClipBehavior_value ANTI_ALIAS_WITH_SAVE_LAYER = ''antiAliasWithSaveLayer''"

datatype CarouselPageChangedReason = TIMED | MANUAL | CONTROLLER

fun CarouselPageChangedReason_value :: "CarouselPageChangedReason \<Rightarrow> string" where
  "CarouselPageChangedReason_value TIMED = ''timed''"
| "CarouselPageChangedReason_value MANUAL = ''manual''"
| "CarouselPageChangedReason_value CONTROLLER = ''controller''"

text \<open>
  The call \<^verbatim>\<open>CarouselPageChangedReason(s)\<close> looks a member up by its value and raises
  \<^verbatim>\<open>ValueError\<close> when no member has it.
\<close>

definition CarouselPageChangedReason_of :: "string \<Rightarrow> error + CarouselPageChangedReason" where
  "CarouselPageChangedReason_of s =
     (if s = ''timed'' then Inr TIMED
      else if s = ''manual'' then Inr MANUAL
      else if s = ''controller'' then Inr CONTROLLER
      else Inl ValueError)"

section \<open>Events\<close>

text \<open>
  A \<^verbatim>\<open>ControlEvent\<close> of the framework carries the target, the event name and the payload
  \<^verbatim>\<open>data\<close> (a string, or \<^verbatim>\<open>None\<close>). Its references to the control and the page are
  handed to the superclass unchanged and are left out.
\<close>

record ControlEvent =
  target :: string
  name :: string
  data :: "string option"

record CarouselChangeEvent = ControlEvent +
  index :: int
  reason :: CarouselPageChangedReason

record CarouselScrolledEvent = ControlEvent +
  value' :: pyfloat

text \<open>\<^verbatim>\<open>e.data or d\<close>: the payload, unless it is \<^verbatim>\<open>None\<close> or empty.\<close>

definition data_or :: "string option \<Rightarrow> 'a \<Rightarrow> (string \<Rightarrow> 'a) \<Rightarrow> 'a" where
  "data_or d dflt f = (case d of None \<Rightarrow> dflt | Some s \<Rightarrow> if s = [] then dflt else f s)"

text \<open>
  \<^verbatim>\<open>CarouselChangeEvent.__init__\<close>: \<^verbatim>\<open>int(parts[0])\<close> is evaluated first and outside the
  \<^verbatim>\<open>try\<close>; \<^verbatim>\<open>parts[1]\<close> is evaluated inside it, where only \<^verbatim>\<open>ValueError\<close> is caught.
\<close>

definition CarouselChangeEvent_init :: "ControlEvent \<Rightarrow> error + CarouselChangeEvent" where
  "CarouselChangeEvent_init e =
     (let parts = py_split (CHR '':'') (data_or (data e) ''0:manual'' id) in
      case parts of
        [] \<Rightarrow> Inl IndexError
      | p0 # ps \<Rightarrow>
          (case py_int p0 of
             Inl err \<Rightarrow> Inl err
           | Inr i \<Rightarrow>
               (case ps of
                  [] \<Rightarrow> Inl IndexError
                | p1 # _ \<Rightarrow>
                    Inr \<lparr>target = target e, name = name e, data = data e, index = i,
                         reason = (case CarouselPageChangedReason_of p1 of
                                     Inl _ \<Rightarrow> MANUAL
                                   | Inr r \<Rightarrow> r)\<rparr>)))"

text \<open>\<^verbatim>\<open>CarouselScrolledEvent.__init__\<close>: \<^verbatim>\<open>float(e.data or 0.0)\<close>, with no \<^verbatim>\<open>try\<close>.\<close>

definition CarouselScrolledEvent_init :: "ControlEvent \<Rightarrow> error + CarouselScrolledEvent" where
  "CarouselScrolledEvent_init e =
     (case data_or (data e) (Inr (Fin 0)) py_float of
        Inl err \<Rightarrow> Inl err
      | Inr v \<Rightarrow> Inr \<lparr>target = target e, name = name e, data = data e, value' = v\<rparr>)"

section \<open>The framework's base class\<close>

text \<open>
  \<^verbatim>\<open>Carousel\<close> derives from the framework's \<^verbatim>\<open>Control\<close>, which is not part of this
  repository. The four methods of it that the wrapper calls are modelled after the
  framework's behaviour:
  \<^item> \<^verbatim>\<open>_set_attr(name, value)\<close> keeps the attributes in a dictionary under the
    lower-cased name. Storing \<^verbatim>\<open>None\<close> where nothing is stored does nothing; \<^verbatim>\<open>None\<close>
    is stored as the empty string otherwise; a value equal (\<^verbatim>\<open>==\<close>) to the stored one
    is not stored again. The value is kept as it is, not turned into a string.
  \<^item> \<^verbatim>\<open>_get_attr(name, data_type, def_value)\<close> returns \<^verbatim>\<open>def_value\<close> when the
    attribute is absent. A stored string is converted as \<^verbatim>\<open>data_type\<close> says
    (\<^verbatim>\<open>"bool"\<close>: equal to \<^verbatim>\<open>"true"\<close> in lower case; \<^verbatim>\<open>"float"\<close>: \<^verbatim>\<open>float(s)\<close>;
    \<^verbatim>\<open>"int"\<close>: \<^verbatim>\<open>int(s)\<close>); any other stored value is returned as it is.
  \<^item> \<^verbatim>\<open>_add_event_handler(name, handler)\<close> puts the handler under the event name;
    an incoming event calls the handler stored under its name, if there is one.
  \<^item> \<^verbatim>\<open>update()\<close> sends the changed attributes to the page. It changes none of the
    fields modelled here; the field \<open>updates\<close> counts the calls. The wrapper calls it
    last in each controller method, so the command is written and the counter is
    incremented whether or not the page takes the update.
\<close>

text \<open>
  An argument of an enumeration-typed option: a member of the enumeration, or any other
  value (\<^verbatim>\<open>isinstance\<close> tells them apart).
\<close>

datatype 'e enum_arg = Member 'e | Other pyval

text \<open>
  The closures \<^verbatim>\<open>_wrap\<close> that the two handler setters register; each holds the handler
  it was made for. \<open>'h\<close> is the type of the application's handlers.
\<close>

datatype 'h wrap = WrapChange 'h | WrapScrolled 'h

text \<open>What an incoming event leads to: the calls of application handlers, with their argument.\<close>

datatype 'h call = ChangeCall 'h CarouselChangeEvent | ScrolledCall 'h CarouselScrolledEvent

text \<open>
  The state of one \<^verbatim>\<open>Carousel\<close> object: the attribute dictionary and the handler
  dictionary of the base class, and the private fields of the wrapper. \<open>'c\<close> is the type
  of the child controls. \<open>priv_controls\<close> is \<open>None\<close> when the field holds \<^verbatim>\<open>None\<close>.
\<close>

record ('c, 'h) Carousel =
  attrs :: "string \<rightharpoonup> pyval"
  event_handlers :: "string \<rightharpoonup> 'h wrap"
  updates :: nat
  priv_controls :: "'c list option"
  priv_cmd_counter :: int
  priv_auto_play_curve :: "AnimateToCurve enum_arg"
  priv_enlarge_strategy :: "EnlargeStrategy enum_arg"
  priv_scroll_direction :: "ScrollDirection enum_arg"
  priv_clip_behavior :: "ClipBehavior enum_arg"
  priv_on_change :: "'h option"
  priv_on_scrolled :: "'h option"

text \<open>
  Python's \<^verbatim>\<open>==\<close> on the values an attribute can hold: booleans, integers and finite
  floats compare as numbers, \<^verbatim>\<open>nan\<close> equals nothing, everything else by identity of
  value.
\<close>

fun num_of :: "pyval \<Rightarrow> rat option" where
  "num_of (PBool b) = Some (if b then 1 else 0)"
| "num_of (PInt i) = Some (of_int i)"
| "num_of (PFloat (Fin q)) = Some q"
| "num_of _ = None"

definition py_eq :: "pyval \<Rightarrow> pyval \<Rightarrow> bool" where
  "py_eq a b =
     (case num_of a of
        Some x \<Rightarrow> (case num_of b of Some y \<Rightarrow> x = y | None \<Rightarrow> False)
      | None \<Rightarrow> (case num_of b of Some y \<Rightarrow> False | None \<Rightarrow> a = b \<and> a \<noteq> PFloat NaN))"

definition set_attr :: "string \<Rightarrow> pyval \<Rightarrow> ('c, 'h) Carousel \<Rightarrow> ('c, 'h) Carousel" where
  "set_attr nm v c =
     (let k = lower nm in
      case attrs c k of
        None \<Rightarrow> if v = PNone then c else c\<lparr>attrs := (attrs c)(k \<mapsto> v)\<rparr>
      | Some orig \<Rightarrow>
          (let w = (if v = PNone then PStr [] else v) in
           if py_eq orig w then c else c\<lparr>attrs := (attrs c)(k \<mapsto> w)\<rparr>))"

definition get_attr :: "string \<Rightarrow> string \<Rightarrow> pyval \<Rightarrow> ('c, 'h) Carousel \<Rightarrow> error + pyval" where
  "get_attr nm data_type def_value c =
     (case attrs c (lower nm) of
        None \<Rightarrow> Inr def_value
      | Some s_val \<Rightarrow>
          (case s_val of
             PStr s \<Rightarrow>
               if data_type = ''bool'' then Inr (PBool (lower s = ''true''))
               else if data_type = ''float'' then
                 (case py_float s of Inl err \<Rightarrow> Inl err | Inr f \<Rightarrow> Inr (PFloat f))
               else if data_type = ''int'' then
                 (case py_int s of Inl err \<Rightarrow> Inl err | Inr i \<Rightarrow> Inr (PInt i))
               else Inr s_val
           | _ \<Rightarrow> Inr s_val))"

definition add_event_handler ::
  "string \<Rightarrow> 'h wrap option \<Rightarrow> ('c, 'h) Carousel \<Rightarrow> ('c, 'h) Carousel" where
  "add_event_handler event_name handler c =
     c\<lparr>event_handlers := (event_handlers c)(event_name := handler)\<rparr>"

definition update :: "('c, 'h) Carousel \<Rightarrow> ('c, 'h) Carousel" where
  "update c = c\<lparr>updates := updates c + 1\<rparr>"

text \<open>Calling a registered closure: \<^verbatim>\<open>if handler: handler(CarouselChangeEvent(e))\<close>.\<close>

fun call_wrap :: "'h wrap \<Rightarrow> ControlEvent \<Rightarrow> error + 'h call list" where
  "call_wrap (WrapChange handler) e =
     (case CarouselChangeEvent_init e of
        Inl err \<Rightarrow> Inl err
      | Inr ev \<Rightarrow> Inr [ChangeCall handler ev])"
| "call_wrap (WrapScrolled handler) e =
     (case CarouselScrolledEvent_init e of
        Inl err \<Rightarrow> Inl err
      | Inr ev \<Rightarrow> Inr [ScrolledCall handler ev])"

text \<open>An event arriving from the page for this control.\<close>

definition fire_event :: "ControlEvent \<Rightarrow> ('c, 'h) Carousel \<Rightarrow> error + 'h call list" where
  "fire_event e c =
     (case event_handlers c (name e) of
        None \<Rightarrow> Inr []
      | Some w \<Rightarrow> call_wrap w e)"

section \<open>The carousel control\<close>

subsection \<open>Framework hooks\<close>

definition get_control_name :: "('c, 'h) Carousel \<Rightarrow> string" where
  "get_control_name c = ''flet_carousel_slider''"

definition get_children :: "('c, 'h) Carousel \<Rightarrow> 'c list option" where
  "get_children c = priv_controls c"

subsection \<open>Controller methods\<close>

text \<open>
  The curve argument of a controller method: a member of \<^verbatim>\<open>AnimateToCurve\<close>, or any
  other object, which is represented by the text \<^verbatim>\<open>str(curve)\<close> gives for it.
\<close>

datatype curve_arg = Curve AnimateToCurve | CurveText string

definition curve_id :: "curve_arg \<Rightarrow> string" where
  "curve_id curve = (case curve of Curve m \<Rightarrow> AnimateToCurve_value m | CurveText s \<Rightarrow> s)"

definition next_cmd :: "('c, 'h) Carousel \<Rightarrow> int \<times> ('c, 'h) Carousel" where
  "next_cmd c =
     (let c' = c\<lparr>priv_cmd_counter := priv_cmd_counter c + 1\<rparr> in (priv_cmd_counter c', c'))"

text \<open>
  The four methods write the command and then call \<^verbatim>\<open>update()\<close>. Each returns the object
  as the call leaves it.
\<close>

definition animate_to_page ::
  "int \<Rightarrow> int \<Rightarrow> curve_arg \<Rightarrow> ('c, 'h) Carousel \<Rightarrow> ('c, 'h) Carousel" where
  "animate_to_page idx duration curve c =
     (let cid = curve_id curve;
          (tok, c1) = next_cmd c
      in update (set_attr ''__animateTo''
                   (PStr (str_int idx @ '':'' @ str_int duration @ '':'' @ cid @ '':'' @ str_int tok)) c1))"

definition next_page :: "int \<Rightarrow> curve_arg \<Rightarrow> ('c, 'h) Carousel \<Rightarrow> ('c, 'h) Carousel" where
  "next_page duration curve c =
     (let cid = curve_id curve;
          (tok, c1) = next_cmd c
      in update (set_attr ''__animateTo''
                   (PStr (''__next:'' @ str_int duration @ '':'' @ cid @ '':'' @ str_int tok)) c1))"

definition previous_page :: "int \<Rightarrow> curve_arg \<Rightarrow> ('c, 'h) Carousel \<Rightarrow> ('c, 'h) Carousel" where
  "previous_page duration curve c =
     (let cid = curve_id curve;
          (tok, c1) = next_cmd c
      in update (set_attr ''__animateTo''
                   (PStr (''__prev:'' @ str_int duration @ '':'' @ cid @ '':'' @ str_int tok)) c1))"

definition jump_to_page :: "int \<Rightarrow> ('c, 'h) Carousel \<Rightarrow> ('c, 'h) Carousel" where
  "jump_to_page idx c =
     (let (tok, c1) = next_cmd c
      in update (set_attr ''__animateTo''
                   (PStr (''__jump:'' @ str_int idx @ '':none:'' @ str_int tok)) c1))"

subsection \<open>Properties\<close>

definition controls :: "('c, 'h) Carousel \<Rightarrow> 'c list option" where
  "controls c = priv_controls c"

definition set_controls :: "'c list option \<Rightarrow> ('c, 'h) Carousel \<Rightarrow> ('c, 'h) Carousel" where
  "set_controls v c = c\<lparr>priv_controls := Some (case v of None \<Rightarrow> [] | Some l \<Rightarrow> l)\<rparr>"

definition height :: "('c, 'h) Carousel \<Rightarrow> error + pyval" where
  "height c = get_attr ''height'' ''float'' (PNone) c"

definition set_height :: "pyval \<Rightarrow> ('c, 'h) Carousel \<Rightarrow> ('c, 'h) Carousel" where
  "set_height v c = set_attr ''height'' v c"

definition aspect_ratio :: "('c, 'h) Carousel \<Rightarrow> error + pyval" where
  "aspect_ratio c = get_attr ''aspectRatio'' ''float'' (PFloat (Fin (16 / 9))) c"

definition set_aspect_ratio :: "pyval \<Rightarrow> ('c, 'h) Carousel \<Rightarrow> ('c, 'h) Carousel" where
  "set_aspect_ratio v c = set_attr ''aspectRatio'' v c"

definition viewport_fraction :: "('c, 'h) Carousel \<Rightarrow> error + pyval" where
  "viewport_fraction c = get_attr ''viewportFraction'' ''float'' (PFloat (Fin (8 / 10))) c"

definition set_viewport_fraction :: "pyval \<Rightarrow> ('c, 'h) Carousel \<Rightarrow> ('c, 'h) Carousel" where
  "set_viewport_fraction v c = set_attr ''viewportFraction'' v c"

definition initial_page :: "('c, 'h) Carousel \<Rightarrow> error + pyval" where
  "initial_page c = get_attr ''initialPage'' ''int'' (PInt 0) c"

definition set_initial_page :: "pyval \<Rightarrow> ('c, 'h) Carousel \<Rightarrow> ('c, 'h) Carousel" where
  "set_initial_page v c = set_attr ''initialPage'' v c"

definition enable_infinite_scroll :: "('c, 'h) Carousel \<Rightarrow> error + pyval" where
  "enable_infinite_scroll c = get_attr ''enableInfiniteScroll'' ''bool'' (PBool True) c"

definition set_enable_infinite_scroll :: "pyval \<Rightarrow> ('c, 'h) Carousel \<Rightarrow> ('c, 'h) Carousel" where
  "set_enable_infinite_scroll v c = set_attr ''enableInfiniteScroll'' v c"

definition disablegesture :: "('c, 'h) Carousel \<Rightarrow> error + pyval" where
  "disablegesture c = get_attr ''disableGesture'' ''bool'' (PBool False) c"

definition set_disablegesture :: "pyval \<Rightarrow> ('c, 'h) Carousel \<Rightarrow> ('c, 'h) Carousel" where
  "set_disablegesture v c = set_attr ''disableGesture'' v c"

definition enable_indicator :: "('c, 'h) Carousel \<Rightarrow> error + pyval" where
  "enable_indicator c = get_attr ''enableindicator'' ''bool'' (PBool True) c"

definition set_enable_indicator :: "pyval \<Rightarrow> ('c, 'h) Carousel \<Rightarrow> ('c, 'h) Carousel" where
  "set_enable_indicator v c = set_attr ''enableindicator'' v c"

definition indicatorwidth :: "('c, 'h) Carousel \<Rightarrow> error + pyval" where
  "indicatorwidth c = get_attr ''indicatorwidth'' ''int'' (PNone) c"

definition set_indicatorwidth :: "pyval \<Rightarrow> ('c, 'h) Carousel \<Rightarrow> ('c, 'h) Carousel" where
  "set_indicatorwidth v c = set_attr ''indicatorwidth'' v c"

definition indicator_inactive_color :: "('c, 'h) Carousel \<Rightarrow> error + pyval" where
  "indicator_inactive_color c = get_attr ''indicatorInactiveColor'' ''int'' (PNone) c"

definition set_indicator_inactive_color :: "pyval \<Rightarrow> ('c, 'h) Carousel \<Rightarrow> ('c, 'h) Carousel" where
  "set_indicator_inactive_color v c = set_attr ''indicatorInactiveColor'' v c"

definition indicator_active_color :: "('c, 'h) Carousel \<Rightarrow> error + pyval" where
  "indicator_active_color c = get_attr ''indicatorActiveColor'' ''bool'' (PNone) c"

definition set_indicator_active_color :: "pyval \<Rightarrow> ('c, 'h) Carousel \<Rightarrow> ('c, 'h) Carousel" where
  "set_indicator_active_color v c = set_attr ''indicatorActiveColor'' v c"

definition build_on_demand :: "('c, 'h) Carousel \<Rightarrow> error + pyval" where
  "build_on_demand c = get_attr ''build_on_demand'' ''bool'' (PBool False) c"

definition set_build_on_demand :: "pyval \<Rightarrow> ('c, 'h) Carousel \<Rightarrow> ('c, 'h) Carousel" where
  "set_build_on_demand v c = set_attr ''build_on_demand'' v c"

definition animate_to_closest :: "('c, 'h) Carousel \<Rightarrow> error + pyval" where
  "animate_to_closest c = get_attr ''animateToClosest'' ''bool'' (PBool True) c"

definition set_animate_to_closest :: "pyval \<Rightarrow> ('c, 'h) Carousel \<Rightarrow> ('c, 'h) Carousel" where
  "set_animate_to_closest v c = set_attr ''animateToClosest'' v c"

definition reverse :: "('c, 'h) Carousel \<Rightarrow> error + pyval" where
  "reverse c = get_attr ''reverse'' ''bool'' (PBool False) c"

definition set_reverse :: "pyval \<Rightarrow> ('c, 'h) Carousel \<Rightarrow> ('c, 'h) Carousel" where
  "set_reverse v c = set_attr ''reverse'' v c"

definition auto_play :: "('c, 'h) Carousel \<Rightarrow> error + pyval" where
  "auto_play c = get_attr ''autoPlay'' ''bool'' (PBool False) c"

definition set_auto_play :: "pyval \<Rightarrow> ('c, 'h) Carousel \<Rightarrow> ('c, 'h) Carousel" where
  "set_auto_play v c = set_attr ''autoPlay'' v c"

definition auto_play_interval :: "('c, 'h) Carousel \<Rightarrow> error + pyval" where
  "auto_play_interval c = get_attr ''autoPlayInterval'' ''int'' (PInt 4000) c"

definition set_auto_play_interval :: "pyval \<Rightarrow> ('c, 'h) Carousel \<Rightarrow> ('c, 'h) Carousel" where
  "set_auto_play_interval v c = set_attr ''autoPlayInterval'' v c"

definition auto_play_animation_duration :: "('c, 'h) Carousel \<Rightarrow> error + pyval" where
  "auto_play_animation_duration c = get_attr ''autoPlayAnimationDuration'' ''int'' (PInt 800) c"

definition set_auto_play_animation_duration :: "pyval \<Rightarrow> ('c, 'h) Carousel \<Rightarrow> ('c, 'h) Carousel" where
  "set_auto_play_animation_duration v c = set_attr ''autoPlayAnimationDuration'' v c"

definition auto_play_curve :: "('c, 'h) Carousel \<Rightarrow> AnimateToCurve enum_arg" where
  "auto_play_curve c = priv_auto_play_curve c"

definition set_auto_play_curve :: "AnimateToCurve enum_arg \<Rightarrow> ('c, 'h) Carousel \<Rightarrow> ('c, 'h) Carousel" where
  "set_auto_play_curve v c =
     set_attr ''autoPlayCurve'' (case v of Member m \<Rightarrow> PStr (AnimateToCurve_value m) | Other x \<Rightarrow> x)
       (c\<lparr>priv_auto_play_curve := v\<rparr>)"

definition enlarge_center_page :: "('c, 'h) Carousel \<Rightarrow> error + pyval" where
  "enlarge_center_page c = get_attr ''enlargeCenterPage'' ''bool'' (PBool False) c"

definition set_enlarge_center_page :: "pyval \<Rightarrow> ('c, 'h) Carousel \<Rightarrow> ('c, 'h) Carousel" where
  "set_enlarge_center_page v c = set_attr ''enlargeCenterPage'' v c"

definition enlarge_strategy :: "('c, 'h) Carousel \<Rightarrow> EnlargeStrategy enum_arg" where
  "enlarge_strategy c = priv_enlarge_strategy c"

definition set_enlarge_strategy :: "EnlargeStrategy enum_arg \<Rightarrow> ('c, 'h) Carousel \<Rightarrow> ('c, 'h) Carousel" where
  "set_enlarge_strategy v c =
     set_attr ''enlargeStrategy'' (case v of Member m \<Rightarrow> PStr (EnlargeStrategy_value m) | Other x \<Rightarrow> x)
       (c\<lparr>priv_enlarge_strategy := v\<rparr>)"

definition enlarge_factor :: "('c, 'h) Carousel \<Rightarrow> error + pyval" where
  "enlarge_factor c = get_attr ''enlargeFactor'' ''float'' (PFloat (Fin (3 / 10))) c"

definition set_enlarge_factor :: "pyval \<Rightarrow> ('c, 'h) Carousel \<Rightarrow> ('c, 'h) Carousel" where
  "set_enlarge_factor v c = set_attr ''enlargeFactor'' v c"

definition page_snapping :: "('c, 'h) Carousel \<Rightarrow> error + pyval" where
  "page_snapping c = get_attr ''pageSnapping'' ''bool'' (PBool True) c"

definition set_page_snapping :: "pyval \<Rightarrow> ('c, 'h) Carousel \<Rightarrow> ('c, 'h) Carousel" where
  "set_page_snapping v c = set_attr ''pageSnapping'' v c"

definition scroll_direction :: "('c, 'h) Carousel \<Rightarrow> ScrollDirection enum_arg" where
  "scroll_direction c = priv_scroll_direction c"

definition set_scroll_direction :: "ScrollDirection enum_arg \<Rightarrow> ('c, 'h) Carousel \<Rightarrow> ('c, 'h) Carousel" where
  "set_scroll_direction v c =
     set_attr ''scrollDirection'' (case v of Member m \<Rightarrow> PStr (ScrollDirection_value m) | Other x \<Rightarrow> x)
       (c\<lparr>priv_scroll_direction := v\<rparr>)"

definition pause_auto_play_on_touch :: "('c, 'h) Carousel \<Rightarrow> error + pyval" where
  "pause_auto_play_on_touch c = get_attr ''pauseAutoPlayOnTouch'' ''bool'' (PBool True) c"

definition set_pause_auto_play_on_touch :: "pyval \<Rightarrow> ('c, 'h) Carousel \<Rightarrow> ('c, 'h) Carousel" where
  "set_pause_auto_play_on_touch v c = set_attr ''pauseAutoPlayOnTouch'' v c"

definition pause_auto_play_on_manual_navigate :: "('c, 'h) Carousel \<Rightarrow> error + pyval" where
  "pause_auto_play_on_manual_navigate c = get_attr ''pauseAutoPlayOnManualNavigate'' ''bool'' (PBool True) c"

definition set_pause_auto_play_on_manual_navigate :: "pyval \<Rightarrow> ('c, 'h) Carousel \<Rightarrow> ('c, 'h) Carousel" where
  "set_pause_auto_play_on_manual_navigate v c = set_attr ''pauseAutoPlayOnManualNavigate'' v c"

definition pause_auto_play_in_finite_scroll :: "('c, 'h) Carousel \<Rightarrow> error + pyval" where
  "pause_auto_play_in_finite_scroll c = get_attr ''pauseAutoPlayInFiniteScroll'' ''bool'' (PBool False) c"

definition set_pause_auto_play_in_finite_scroll :: "pyval \<Rightarrow> ('c, 'h) Carousel \<Rightarrow> ('c, 'h) Carousel" where
  "set_pause_auto_play_in_finite_scroll v c = set_attr ''pauseAutoPlayInFiniteScroll'' v c"

definition disable_center :: "('c, 'h) Carousel \<Rightarrow> error + pyval" where
  "disable_center c = get_attr ''disableCenter'' ''bool'' (PBool False) c"

definition set_disable_center :: "pyval \<Rightarrow> ('c, 'h) Carousel \<Rightarrow> ('c, 'h) Carousel" where
  "set_disable_center v c = set_attr ''disableCenter'' v c"

definition pad_ends :: "('c, 'h) Carousel \<Rightarrow> error + pyval" where
  "pad_ends c = get_attr ''padEnds'' ''bool'' (PBool True) c"

definition set_pad_ends :: "pyval \<Rightarrow> ('c, 'h) Carousel \<Rightarrow> ('c, 'h) Carousel" where
  "set_pad_ends v c = set_attr ''padEnds'' v c"

definition clip_behavior :: "('c, 'h) Carousel \<Rightarrow> ClipBehavior enum_arg" where
  "clip_behavior c = priv_clip_behavior c"

definition set_clip_behavior :: "ClipBehavior enum_arg \<Rightarrow> ('c, 'h) Carousel \<Rightarrow> ('c, 'h) Carousel" where
  "set_clip_behavior v c =
     set_attr ''clipBehavior'' (case v of Member m \<Rightarrow> PStr (ClipBehavior_value m) | Other x \<Rightarrow> x)
       (c\<lparr>priv_clip_behavior := v\<rparr>)"

definition on_change :: "('c, 'h) Carousel \<Rightarrow> 'h option" where
  "on_change c = priv_on_change c"

definition set_on_change :: "'h option \<Rightarrow> ('c, 'h) Carousel \<Rightarrow> ('c, 'h) Carousel" where
  "set_on_change handler c =
     add_event_handler ''change'' (map_option WrapChange handler) (c\<lparr>priv_on_change := handler\<rparr>)"

definition on_scrolled :: "('c, 'h) Carousel \<Rightarrow> 'h option" where
  "on_scrolled c = priv_on_scrolled c"

definition set_on_scrolled :: "'h option \<Rightarrow> ('c, 'h) Carousel \<Rightarrow> ('c, 'h) Carousel" where
  "set_on_scrolled handler c =
     add_event_handler ''scrolled'' (map_option WrapScrolled handler) (c\<lparr>priv_on_scrolled := handler\<rparr>)"


subsection \<open>Construction\<close>

text \<open>
  The parameters of \<^verbatim>\<open>Carousel.__init__\<close>, in the order of its signature. The parameters
  \<^verbatim>\<open>ref\<close>, \<^verbatim>\<open>visible\<close>, \<^verbatim>\<open>disabled\<close> and \<^verbatim>\<open>data\<close> go to the base class and are
  left out.
\<close>

record ('c, 'h) Carousel_args =
  arg_controls :: "'c list option"
  arg_height :: pyval
  arg_aspect_ratio :: pyval
  arg_viewport_fraction :: pyval
  arg_initial_page :: pyval
  arg_disablegesture :: pyval
  arg_enable_indicator :: pyval
  arg_indicatorwidth :: pyval
  arg_indicator_inactive_color :: pyval
  arg_indicator_active_color :: pyval
  arg_build_on_demand :: pyval
  arg_enable_infinite_scroll :: pyval
  arg_animate_to_closest :: pyval
  arg_reverse :: pyval
  arg_auto_play :: pyval
  arg_auto_play_interval :: pyval
  arg_auto_play_animation_duration :: pyval
  arg_auto_play_curve :: "AnimateToCurve enum_arg"
  arg_enlarge_center_page :: pyval
  arg_enlarge_strategy :: "EnlargeStrategy enum_arg"
  arg_enlarge_factor :: pyval
  arg_page_snapping :: pyval
  arg_scroll_direction :: "ScrollDirection enum_arg"
  arg_pause_auto_play_on_touch :: pyval
  arg_pause_auto_play_on_manual_navigate :: pyval
  arg_pause_auto_play_in_finite_scroll :: pyval
  arg_disable_center :: pyval
  arg_pad_ends :: pyval
  arg_clip_behavior :: "ClipBehavior enum_arg"
  arg_on_change :: "'h option"
  arg_on_scrolled :: "'h option"

text \<open>The default values of the parameters; \<^verbatim>\<open>controls\<close> has none.\<close>

definition default_args :: "'c list option \<Rightarrow> ('c, 'h) Carousel_args" where
  "default_args cs =
     \<lparr>arg_controls = cs,
      arg_height = PNone,
      arg_aspect_ratio = PFloat (Fin (16 / 9)),
      arg_viewport_fraction = PFloat (Fin (8 / 10)),
      arg_initial_page = PInt 0,
      arg_disablegesture = PBool False,
      arg_enable_indicator = PBool True,
      arg_indicatorwidth = PNone,
      arg_indicator_inactive_color = PNone,
      arg_indicator_active_color = PNone,
      arg_build_on_demand = PBool False,
      arg_enable_infinite_scroll = PBool True,
      arg_animate_to_closest = PBool True,
      arg_reverse = PBool False,
      arg_auto_play = PBool False,
      arg_auto_play_interval = PInt 4000,
      arg_auto_play_animation_duration = PInt 800,
      arg_auto_play_curve = Member FAST_OUT_SLOW_IN,
      arg_enlarge_center_page = PBool False,
      arg_enlarge_strategy = Member SCALE,
      arg_enlarge_factor = PFloat (Fin (3 / 10)),
      arg_page_snapping = PBool True,
      arg_scroll_direction = Member HORIZONTAL,
      arg_pause_auto_play_on_touch = PBool True,
      arg_pause_auto_play_on_manual_navigate = PBool True,
      arg_pause_auto_play_in_finite_scroll = PBool False,
      arg_disable_center = PBool False,
      arg_pad_ends = PBool True,
      arg_clip_behavior = Member HARD_EDGE,
      arg_on_change = None,
      arg_on_scrolled = None\<rparr>"

text \<open>
  The object as \<^verbatim>\<open>super().__init__\<close> leaves it: both dictionaries are empty. The private
  fields of the wrapper do not exist yet; the values they have here are all overwritten
  by \<open>Carousel_init\<close>.
\<close>

definition new_control :: "('c, 'h) Carousel" where
  "new_control =
     \<lparr>attrs = Map.empty, event_handlers = Map.empty, updates = 0,
      priv_controls = None, priv_cmd_counter = 0,
      priv_auto_play_curve = Other PNone, priv_enlarge_strategy = Other PNone,
      priv_scroll_direction = Other PNone, priv_clip_behavior = Other PNone,
      priv_on_change = None, priv_on_scrolled = None\<rparr>"

text \<open>\<^verbatim>\<open>Carousel.__init__\<close>: the assignments in the order of the source, then the counter.\<close>

definition Carousel_init :: "('c, 'h) Carousel_args \<Rightarrow> ('c, 'h) Carousel" where
  "Carousel_init a =
     (foldl (\<lambda>c f. f c) new_control
        [set_controls (arg_controls a),
         set_height (arg_height a),
         set_aspect_ratio (arg_aspect_ratio a),
         set_viewport_fraction (arg_viewport_fraction a),
         set_initial_page (arg_initial_page a),
         set_disablegesture (arg_disablegesture a),
         set_enable_indicator (arg_enable_indicator a),
         set_indicatorwidth (arg_indicatorwidth a),
         set_indicator_active_color (arg_indicator_active_color a),
         set_indicator_inactive_color (arg_indicator_inactive_color a),
         set_build_on_demand (arg_build_on_demand a),
         set_enable_infinite_scroll (arg_enable_infinite_scroll a),
         set_animate_to_closest (arg_animate_to_closest a),
         set_reverse (arg_reverse a),
         set_auto_play (arg_auto_play a),
         set_auto_play_interval (arg_auto_play_interval a),
         set_auto_play_animation_duration (arg_auto_play_animation_duration a),
         set_auto_play_curve (arg_auto_play_curve a),
         set_enlarge_center_page (arg_enlarge_center_page a),
         set_enlarge_strategy (arg_enlarge_strategy a),
         set_enlarge_factor (arg_enlarge_factor a),
         set_page_snapping (arg_page_snapping a),
         set_scroll_direction (arg_scroll_direction a),
         set_pause_auto_play_on_touch (arg_pause_auto_play_on_touch a),
         set_pause_auto_play_on_manual_navigate (arg_pause_auto_play_on_manual_navigate a),
         set_pause_auto_play_in_finite_scroll (arg_pause_auto_play_in_finite_scroll a),
         set_disable_center (arg_disable_center a),
         set_pad_ends (arg_pad_ends a),
         set_clip_behavior (arg_clip_behavior a),
         set_on_change (arg_on_change a),
         set_on_scrolled (arg_on_scrolled a)])
     \<lparr>priv_cmd_counter := 0\<rparr>"

section \<open>Notions used in the statements\<close>

text \<open>A call of one of the four controller methods, with its arguments.\<close>

datatype nav =
    AnimateToPage int int curve_arg
  | NextPage int curve_arg
  | PreviousPage int curve_arg
  | JumpToPage int

fun do_nav :: "nav \<Rightarrow> ('c, 'h) Carousel \<Rightarrow> ('c, 'h) Carousel" where
  "do_nav (AnimateToPage idx duration curve) c = animate_to_page idx duration curve c"
| "do_nav (NextPage duration curve) c = next_page duration curve c"
| "do_nav (PreviousPage duration curve) c = previous_page duration curve c"
| "do_nav (JumpToPage idx) c = jump_to_page idx c"

text \<open>The command attribute, read under the name the methods write it.\<close>

definition command :: "('c, 'h) Carousel \<Rightarrow> error + pyval" where
  "command c = get_attr ''__animateTo'' ''string'' PNone c"

text \<open>
  The arguments of \<^verbatim>\<open>Carousel(controls, height=None, aspect_ratio=None, ...)\<close>: every
  option that is read from the attribute store is passed as \<^verbatim>\<open>None\<close>, the others keep their
  defaults.
\<close>

definition unset_args :: "'c list option \<Rightarrow> ('c, 'h) Carousel_args" where
  "unset_args cs =
     (default_args cs)
     \<lparr>arg_height := PNone,
      arg_aspect_ratio := PNone,
      arg_viewport_fraction := PNone,
      arg_initial_page := PNone,
      arg_enable_infinite_scroll := PNone,
      arg_disablegesture := PNone,
      arg_enable_indicator := PNone,
      arg_indicatorwidth := PNone,
      arg_indicator_inactive_color := PNone,
      arg_indicator_active_color := PNone,
      arg_build_on_demand := PNone,
      arg_animate_to_closest := PNone,
      arg_reverse := PNone,
      arg_auto_play := PNone,
      arg_auto_play_interval := PNone,
      arg_auto_play_animation_duration := PNone,
      arg_enlarge_center_page := PNone,
      arg_enlarge_factor := PNone,
      arg_page_snapping := PNone,
      arg_pause_auto_play_on_touch := PNone,
      arg_pause_auto_play_on_manual_navigate := PNone,
      arg_pause_auto_play_in_finite_scroll := PNone,
      arg_disable_center := PNone,
      arg_pad_ends := PNone\<rparr>"

text \<open>The number a string of decimal digits stands for.\<close>

definition str_val :: "string \<Rightarrow> nat" where
  "str_val s = nat_of_digits (map (\<lambda>c. of_char c - 48) s)"


section \<open>Evaluation of the parsers\<close>

lemmas parse_defs = py_int_def strip_def is_space_def digit_seq_def digit_val_def unsigned_def
  negative_def is_sign_def nat_of_digits_def data_or_def CarouselPageChangedReason_of_def

lemmas float_defs = py_float_def decimal_def opt_digit_seq_def is_exp_mark_def lower_def
  lower_chr_def exponent_def pow10_def

section \<open>Incoming events\<close>

text \<open>
  Claim C1. The claim: for every string payload, constructing a \<^verbatim>\<open>CarouselChangeEvent\<close> or
  a \<^verbatim>\<open>CarouselScrolledEvent\<close> raises nothing, and a malformed payload degrades to the
  defaults. The constructors do raise: the change payload \<^verbatim>\<open>"abc:timed"\<close> raises
  \<^verbatim>\<open>ValueError\<close> (\<^verbatim>\<open>int("abc")\<close> stands outside the \<^verbatim>\<open>try\<close>), the change payload \<^verbatim>\<open>"3"\<close>
  raises \<^verbatim>\<open>IndexError\<close> (\<^verbatim>\<open>parts[1]\<close> does not exist, and only \<^verbatim>\<open>ValueError\<close> is caught),
  and the scroll payload \<^verbatim>\<open>"abc"\<close> raises \<^verbatim>\<open>ValueError\<close> (\<^verbatim>\<open>float("abc")\<close> has no
  \<^verbatim>\<open>try\<close> around it).
\<close>

theorem C1_malformed_payloads_raise:
  "CarouselChangeEvent_init \<lparr>target = t, name = n, data = Some ''abc:timed''\<rparr> = Inl ValueError
   \<and> CarouselChangeEvent_init \<lparr>target = t, name = n, data = Some ''3''\<rparr> = Inl IndexError
   \<and> CarouselScrolledEvent_init \<lparr>target = t, name = n, data = Some ''abc''\<rparr> = Inl ValueError"
  by (simp add: CarouselChangeEvent_init_def CarouselScrolledEvent_init_def parse_defs float_defs)

text \<open>
  Claim C3. The change payload \<^verbatim>\<open>"3:timed"\<close> gives index 3 and reason \<^verbatim>\<open>TIMED\<close>; the payload
  \<^verbatim>\<open>"2:bogus"\<close> gives index 2 and reason \<^verbatim>\<open>MANUAL\<close>; the empty payload gives index 0
  and reason \<^verbatim>\<open>MANUAL\<close>.
\<close>

theorem C3_change_payload_examples:
  "CarouselChangeEvent_init \<lparr>target = t, name = n, data = Some ''3:timed''\<rparr> =
     Inr \<lparr>target = t, name = n, data = Some ''3:timed'', index = 3, reason = TIMED\<rparr>
   \<and> CarouselChangeEvent_init \<lparr>target = t, name = n, data = Some ''2:bogus''\<rparr> =
     Inr \<lparr>target = t, name = n, data = Some ''2:bogus'', index = 2, reason = MANUAL\<rparr>
   \<and> CarouselChangeEvent_init \<lparr>target = t, name = n, data = Some []\<rparr> =
     Inr \<lparr>target = t, name = n, data = Some [], index = 0, reason = MANUAL\<rparr>"
  by (simp add: CarouselChangeEvent_init_def parse_defs)

section \<open>Formatting integers and splitting strings\<close>

lemma digit_chr_code: "d < 10 \<Longrightarrow> (of_char (digit_chr d) :: nat) = 48 + d"
proof -
  assume "d < 10"
  then have "d \<in> {0, 1, 2, 3, 4, 5, 6, 7, 8, 9}" by auto
  then show ?thesis by (auto simp: digit_chr_def)
qed

lemma str_val_snoc: "str_val (s @ [c]) = 10 * str_val s + (of_char c - 48)"
  by (simp add: str_val_def nat_of_digits_def)

lemma str_val_str_nat: "str_val (str_nat n) = n"
proof (induction n rule: str_nat.induct)
  case (1 n)
  show ?case
  proof (cases "n < 10")
    case True
    then show ?thesis
      by (simp add: str_nat.simps [of n] str_val_def nat_of_digits_def digit_chr_code)
  next
    case False
    then have "str_val (str_nat n) = 10 * str_val (str_nat (n div 10)) + (n mod 10)"
      by (simp add: str_nat.simps [of n] str_val_snoc digit_chr_code)
    with False "1.IH" show ?thesis by simp
  qed
qed

lemma str_nat_inj: "str_nat a = str_nat b \<Longrightarrow> a = b"
  by (metis str_val_str_nat)

lemma str_nat_digits: "c \<in> set (str_nat n) \<Longrightarrow> 48 \<le> (of_char c :: nat) \<and> (of_char c :: nat) \<le> 57"
proof (induction n rule: str_nat.induct)
  case (1 n)
  show ?case
  proof (cases "n < 10")
    case True
    with "1.prems" show ?thesis
      by (simp add: str_nat.simps [of n] digit_chr_code)
  next
    case False
    with "1.prems" have "c \<in> set (str_nat (n div 10)) \<or> c = digit_chr (n mod 10)"
      by (auto simp: str_nat.simps [of n])
    then show ?thesis
    proof
      assume "c \<in> set (str_nat (n div 10))"
      with False "1.IH" show ?thesis by simp
    next
      assume "c = digit_chr (n mod 10)"
      then show ?thesis by (simp add: digit_chr_code)
    qed
  qed
qed

lemma str_nat_no_minus: "CHR ''-'' \<notin> set (str_nat n)"
  using str_nat_digits [of "CHR ''-''" n] by auto

lemma str_nat_no_colon: "CHR '':'' \<notin> set (str_nat n)"
  using str_nat_digits [of "CHR '':''" n] by auto

lemma str_nat_not_Nil: "str_nat n \<noteq> []"
  by (subst str_nat.simps) simp

lemma str_int_inj: "str_int a = str_int b \<Longrightarrow> a = b"
proof -
  assume eq: "str_int a = str_int b"
  have ne: "str_nat m \<noteq> CHR ''-'' # s" "CHR ''-'' # s \<noteq> str_nat m" for m s
    using str_nat_no_minus [of m] by (metis list.set_intros(1))+
  show ?thesis
  proof (cases "a < 0")
    case True
    with eq ne have "b < 0" by (auto simp: str_int_def split: if_splits)
    with True eq have "nat (- a) = nat (- b)" by (auto simp: str_int_def dest: str_nat_inj)
    with True \<open>b < 0\<close> show ?thesis by simp
  next
    case False
    with eq ne have "\<not> b < 0" by (auto simp: str_int_def split: if_splits)
    with False eq have "nat a = nat b" by (auto simp: str_int_def dest: str_nat_inj)
    with False \<open>\<not> b < 0\<close> show ?thesis by simp
  qed
qed

lemma str_int_no_colon: "CHR '':'' \<notin> set (str_int i)"
  by (simp add: str_int_def str_nat_no_colon)

lemma py_split_not_Nil: "py_split sep s \<noteq> []"
  by (induction s) (auto split: list.split)

lemma py_split_no_sep: "sep \<notin> set s \<Longrightarrow> py_split sep s = [s]"
  by (induction s) auto

lemma py_split_append: "py_split sep (a @ sep # b) = py_split sep a @ py_split sep b"
proof (induction a)
  case Nil
  show ?case by simp
next
  case (Cons c a)
  obtain y ys where "py_split sep a = y # ys"
    using py_split_not_Nil [of sep a] by (cases "py_split sep a") auto
  with Cons show ?case by simp
qed

lemma last_py_split: "sep \<notin> set b \<Longrightarrow> last (py_split sep (a @ sep # b)) = b"
  by (simp add: py_split_append py_split_no_sep)

section \<open>The attribute store\<close>

lemma py_eq_PStr: "py_eq w (PStr s) \<longleftrightarrow> w = PStr s"
proof (cases w)
  case (PFloat f)
  then show ?thesis by (cases f) (simp_all add: py_eq_def)
qed (auto simp: py_eq_def)

lemma attrs_set_attr_PStr: "attrs (set_attr nm (PStr s) c) (lower nm) = Some (PStr s)"
  by (simp add: set_attr_def Let_def py_eq_PStr split: option.split)

lemma lower_animateTo: "lower ''__animateTo'' = ''__animateto''"
  by (simp add: lower_def lower_chr_def)

lemma command_set_attr:
  "command (update (set_attr ''__animateTo'' (PStr s) c)) = Inr (PStr s)"
  using attrs_set_attr_PStr [of "''__animateTo''" s c]
  by (simp add: command_def get_attr_def update_def)

lemma set_attr_fields:
  "priv_cmd_counter (set_attr nm v c) = priv_cmd_counter c"
  "priv_controls (set_attr nm v c) = priv_controls c"
  "event_handlers (set_attr nm v c) = event_handlers c"
  "updates (set_attr nm v c) = updates c"
  "priv_auto_play_curve (set_attr nm v c) = priv_auto_play_curve c"
  "priv_enlarge_strategy (set_attr nm v c) = priv_enlarge_strategy c"
  "priv_scroll_direction (set_attr nm v c) = priv_scroll_direction c"
  "priv_clip_behavior (set_attr nm v c) = priv_clip_behavior c"
  "priv_on_change (set_attr nm v c) = priv_on_change c"
  "priv_on_scrolled (set_attr nm v c) = priv_on_scrolled c"
  by (simp_all add: set_attr_def Let_def split: option.split)

lemma str_int_2: "str_int 2 = ''2''"
  and str_int_5: "str_int 5 = ''5''"
  and str_int_500: "str_int 500 = ''500''"
  by (simp_all add: str_int_def str_nat.simps digit_chr_def)

section \<open>Navigation commands\<close>

text \<open>
  Claim C4. For every integer index, every integer duration and every member of
  \<^verbatim>\<open>AnimateToCurve\<close>, \<^verbatim>\<open>animate_to_page(index, duration, curve)\<close> writes the attribute
  \<^verbatim>\<open>__animateTo\<close> with index, duration, the curve's value and the token, separated by
  colons; \<^verbatim>\<open>animate_to_page(2, 500, EASE_IN)\<close> writes \<^verbatim>\<open>2:500:easeIn:\<close> and the token.
  The token is the counter after its increment.
\<close>

theorem C4_animate_to_page_command:
  "command (animate_to_page idx duration (Curve m) c) =
     Inr (PStr (str_int idx @ '':'' @ str_int duration @ '':'' @ AnimateToCurve_value m @ '':''
                @ str_int (priv_cmd_counter c + 1)))
   \<and> command (animate_to_page 2 500 (Curve EASE_IN) c) =
     Inr (PStr (''2:500:easeIn:'' @ str_int (priv_cmd_counter c + 1)))"
  by (simp add: animate_to_page_def next_cmd_def curve_id_def command_set_attr str_int_2 str_int_500)

text \<open>
  Claim C5. For every integer index, \<^verbatim>\<open>jump_to_page(index)\<close> writes the attribute
  \<^verbatim>\<open>__animateTo\<close> with \<^verbatim>\<open>__jump:\<close>, the index, \<^verbatim>\<open>:none:\<close> and the token;
  \<^verbatim>\<open>jump_to_page(5)\<close> writes \<^verbatim>\<open>__jump:5:none:\<close> and the token.
\<close>

theorem C5_jump_to_page_command:
  "command (jump_to_page idx c) =
     Inr (PStr (''__jump:'' @ str_int idx @ '':none:'' @ str_int (priv_cmd_counter c + 1)))
   \<and> command (jump_to_page 5 c) =
     Inr (PStr (''__jump:5:none:'' @ str_int (priv_cmd_counter c + 1)))"
  by (simp add: jump_to_page_def next_cmd_def command_set_attr str_int_5)

lemma next_page_counter: "priv_cmd_counter (next_page d cv c) = priv_cmd_counter c + 1"
  by (simp add: next_page_def next_cmd_def update_def set_attr_fields)

lemma do_nav_counter: "priv_cmd_counter (do_nav x c) = priv_cmd_counter c + 1"
  by (cases x)
     (simp_all add: animate_to_page_def next_page_def previous_page_def jump_to_page_def
        next_cmd_def update_def set_attr_fields)

lemma do_nav_command:
  "\<exists>pre. command (do_nav x c) = Inr (PStr (pre @ CHR '':'' # str_int (priv_cmd_counter c + 1)))"
proof (cases x)
  case (AnimateToPage idx duration curve)
  have "command (do_nav x c) =
          Inr (PStr ((str_int idx @ '':'' @ str_int duration @ '':'' @ curve_id curve)
                     @ CHR '':'' # str_int (priv_cmd_counter c + 1)))"
    by (simp add: AnimateToPage animate_to_page_def next_cmd_def command_set_attr)
  then show ?thesis by blast
next
  case (NextPage duration curve)
  have "command (do_nav x c) =
          Inr (PStr ((''__next:'' @ str_int duration @ '':'' @ curve_id curve)
                     @ CHR '':'' # str_int (priv_cmd_counter c + 1)))"
    by (simp add: NextPage next_page_def next_cmd_def command_set_attr)
  then show ?thesis by blast
next
  case (PreviousPage duration curve)
  have "command (do_nav x c) =
          Inr (PStr ((''__prev:'' @ str_int duration @ '':'' @ curve_id curve)
                     @ CHR '':'' # str_int (priv_cmd_counter c + 1)))"
    by (simp add: PreviousPage previous_page_def next_cmd_def command_set_attr)
  then show ?thesis by blast
next
  case (JumpToPage idx)
  have "command (do_nav x c) =
          Inr (PStr ((''__jump:'' @ str_int idx @ '':none'')
                     @ CHR '':'' # str_int (priv_cmd_counter c + 1)))"
    by (simp add: JumpToPage jump_to_page_def next_cmd_def command_set_attr)
  then show ?thesis by blast
qed

lemma do_nav_token:
  "\<exists>s. command (do_nav x c) = Inr (PStr s)
       \<and> last (py_split (CHR '':'') s) = str_int (priv_cmd_counter c + 1)"
proof -
  obtain pre where "command (do_nav x c) = Inr (PStr (pre @ CHR '':'' # str_int (priv_cmd_counter c + 1)))"
    using do_nav_command by blast
  then show ?thesis
    by (simp add: last_py_split str_int_no_colon)
qed

lemma Carousel_init_counter: "priv_cmd_counter (Carousel_init a) = 0"
  by (simp add: Carousel_init_def)

lemma run_counter:
  "priv_cmd_counter (foldl (\<lambda>c x. do_nav x c) c xs) = priv_cmd_counter c + int (length xs)"
  by (induction xs arbitrary: c) (simp_all add: do_nav_counter)

text \<open>
  Claim C6. Two calls of \<^verbatim>\<open>next_page\<close> in a row with the same arguments, on one
  instance, write two different commands: both start with the same text and end with
  the token, and the counter the token is taken from grows with each call.
\<close>

theorem C6_next_page_twice_distinct:
  "command (next_page d cv c) =
     Inr (PStr (''__next:'' @ str_int d @ '':'' @ curve_id cv @ '':'' @ str_int (priv_cmd_counter c + 1)))
   \<and> command (next_page d cv (next_page d cv c)) =
     Inr (PStr (''__next:'' @ str_int d @ '':'' @ curve_id cv @ '':'' @ str_int (priv_cmd_counter c + 2)))
   \<and> command (next_page d cv c) \<noteq> command (next_page d cv (next_page d cv c))
   \<and> priv_cmd_counter c < priv_cmd_counter (next_page d cv c)
   \<and> priv_cmd_counter (next_page d cv c) < priv_cmd_counter (next_page d cv (next_page d cv c))"
proof -
  have one: "command (next_page d cv c) =
     Inr (PStr (''__next:'' @ str_int d @ '':'' @ curve_id cv @ '':'' @ str_int (priv_cmd_counter c + 1)))"
    for c :: "('a, 'b) Carousel"
    by (simp add: next_page_def next_cmd_def command_set_attr)
  have two: "command (next_page d cv (next_page d cv c)) =
     Inr (PStr (''__next:'' @ str_int d @ '':'' @ curve_id cv @ '':'' @ str_int (priv_cmd_counter c + 2)))"
    by (simp add: one next_page_counter add.commute)
  have "str_int (priv_cmd_counter c + 1) \<noteq> str_int (priv_cmd_counter c + 2)"
    using str_int_inj [of "priv_cmd_counter c + 1" "priv_cmd_counter c + 2"] by auto
  then have neq: "command (next_page d cv c) \<noteq> command (next_page d cv (next_page d cv c))"
    unfolding two one [of c] by simp
  from one [of c] two neq show ?thesis
    by (simp only: next_page_counter) simp
qed

text \<open>
  Claim C9. The counter of a newly constructed instance is 0; each of the four
  controller methods adds exactly 1 to it; so the n-th command of an instance, in any
  mix of the four methods, has the token n as its last segment, starting at 1.
\<close>

theorem C9_shared_counter_tokens:
  "priv_cmd_counter (Carousel_init a) = 0
   \<and> priv_cmd_counter (do_nav x c) = priv_cmd_counter c + 1
   \<and> priv_cmd_counter (foldl (\<lambda>c x. do_nav x c) (Carousel_init a) (xs @ [x])) = int (length xs) + 1
   \<and> (\<exists>s. command (foldl (\<lambda>c x. do_nav x c) (Carousel_init a) (xs @ [x])) = Inr (PStr s)
          \<and> last (py_split (CHR '':'') s) = str_int (int (length xs) + 1))"
proof -
  let ?c = "foldl (\<lambda>c x. do_nav x c) (Carousel_init a) xs"
  have n: "priv_cmd_counter ?c = int (length xs)"
    by (simp add: run_counter Carousel_init_counter)
  have "\<exists>s. command (do_nav x ?c) = Inr (PStr s)
       \<and> last (py_split (CHR '':'') s) = str_int (priv_cmd_counter ?c + 1)"
    by (rule do_nav_token)
  with n show ?thesis
    by (simp add: Carousel_init_counter do_nav_counter)
qed

section \<open>Configuration options\<close>

lemmas getter_defs = height_def aspect_ratio_def viewport_fraction_def initial_page_def
  enable_infinite_scroll_def disablegesture_def enable_indicator_def indicatorwidth_def
  indicator_inactive_color_def indicator_active_color_def build_on_demand_def
  animate_to_closest_def reverse_def auto_play_def auto_play_interval_def
  auto_play_animation_duration_def enlarge_center_page_def enlarge_factor_def page_snapping_def
  pause_auto_play_on_touch_def pause_auto_play_on_manual_navigate_def
  pause_auto_play_in_finite_scroll_def disable_center_def pad_ends_def

lemmas enum_getter_defs = auto_play_curve_def enlarge_strategy_def scroll_direction_def clip_behavior_def

lemmas setter_defs = set_controls_def set_height_def set_aspect_ratio_def
  set_viewport_fraction_def set_initial_page_def set_enable_infinite_scroll_def
  set_disablegesture_def set_enable_indicator_def set_indicatorwidth_def
  set_indicator_inactive_color_def set_indicator_active_color_def set_build_on_demand_def
  set_animate_to_closest_def set_reverse_def set_auto_play_def set_auto_play_interval_def
  set_auto_play_animation_duration_def set_enlarge_center_page_def set_enlarge_factor_def
  set_page_snapping_def set_pause_auto_play_on_touch_def
  set_pause_auto_play_on_manual_navigate_def set_pause_auto_play_in_finite_scroll_def
  set_disable_center_def set_pad_ends_def set_auto_play_curve_def set_enlarge_strategy_def
  set_scroll_direction_def set_clip_behavior_def set_on_change_def set_on_scrolled_def
  add_event_handler_def

lemma get_attr_unset: "attrs c (lower nm) = None \<Longrightarrow> get_attr nm dt dv c = Inr dv"
  by (simp add: get_attr_def)

lemma attrs_set_attr_other: "lower nm \<noteq> k \<Longrightarrow> attrs (set_attr nm v c) k = attrs c k"
  by (simp add: set_attr_def Let_def split: option.split)

lemma attrs_set_attr_None_unset:
  "attrs c (lower nm) = None \<Longrightarrow> attrs (set_attr nm PNone c) (lower nm) = None"
  by (simp add: set_attr_def Let_def)

lemma get_set_attr_PStr:
  "get_attr nm dt dv (set_attr nm (PStr s) c) =
     (if dt = ''bool'' then Inr (PBool (lower s = ''true''))
      else if dt = ''float'' then (case py_float s of Inl err \<Rightarrow> Inl err | Inr f \<Rightarrow> Inr (PFloat f))
      else if dt = ''int'' then (case py_int s of Inl err \<Rightarrow> Inl err | Inr i \<Rightarrow> Inr (PInt i))
      else Inr (PStr s))"
  by (simp add: get_attr_def attrs_set_attr_PStr)

lemma get_set_attr_number:
  assumes "num_of v = Some x"
  shows "\<exists>w. get_attr nm dt dv (set_attr nm v c) = Inr w \<and> py_eq w v"
proof (cases "attrs c (lower nm)")
  case None
  with assms show ?thesis
    by (cases v) (auto simp: get_attr_def set_attr_def py_eq_def)
next
  case (Some orig)
  show ?thesis
  proof (cases "py_eq orig v")
    case True
    with assms obtain y where "num_of orig = Some y"
      by (auto simp: py_eq_def split: option.splits)
    then have "\<forall>s. orig \<noteq> PStr s" by auto
    with Some True assms show ?thesis
      by (cases orig) (auto simp: get_attr_def set_attr_def)
  next
    case False
    with Some assms show ?thesis
      by (cases v) (auto simp: get_attr_def set_attr_def py_eq_def)
  qed
qed

text \<open>
  A number or a boolean that is set comes back from \<open>get_attr\<close> equal to what was set,
  whatever the data type asked for; a member of an enumeration comes back from the
  private field it was put in.
\<close>

lemma enum_round_trip:
  "auto_play_curve (set_auto_play_curve v1 c) = v1"
  "enlarge_strategy (set_enlarge_strategy v2 c) = v2"
  "scroll_direction (set_scroll_direction v3 c) = v3"
  "clip_behavior (set_clip_behavior v4 c) = v4"
  by (simp_all add: enum_getter_defs setter_defs set_attr_fields)

text \<open>
  Claim C2. The claim: for every option and every value of the option's type, setting
  the option and reading it back returns the value, the two colour options included.
  The two colour getters read the attribute with the data types \<^verbatim>\<open>"bool"\<close> and \<^verbatim>\<open>"int"\<close>:
  after the colour \<^verbatim>\<open>"red"\<close> is set, \<^verbatim>\<open>indicator_active_color\<close> returns \<^verbatim>\<open>False\<close> and
  \<^verbatim>\<open>indicator_inactive_color\<close> raises \<^verbatim>\<open>ValueError\<close>. This holds whatever the object held
  before.
\<close>

theorem C2_color_getters_lose_the_value:
  "indicator_active_color (set_indicator_active_color (PStr ''red'') c) = Inr (PBool False)
   \<and> indicator_inactive_color (set_indicator_inactive_color (PStr ''red'') c) = Inl ValueError"
  by (simp add: indicator_active_color_def set_indicator_active_color_def
        indicator_inactive_color_def set_indicator_inactive_color_def
        get_set_attr_PStr parse_defs lower_def lower_chr_def)

lemma Carousel_init_enums:
  "priv_auto_play_curve (Carousel_init a) = arg_auto_play_curve a"
  "priv_enlarge_strategy (Carousel_init a) = arg_enlarge_strategy a"
  "priv_scroll_direction (Carousel_init a) = arg_scroll_direction a"
  "priv_clip_behavior (Carousel_init a) = arg_clip_behavior a"
  by (simp_all add: Carousel_init_def setter_defs set_attr_fields)

lemma Carousel_init_controls:
  "priv_controls (Carousel_init a) = Some (case arg_controls a of None \<Rightarrow> [] | Some l \<Rightarrow> l)"
  by (simp add: Carousel_init_def setter_defs set_attr_fields)

text \<open>
  Claim C7, as amended. Each of the 24 options that are read from the attribute store
  returns its documented default when its attribute is unset. The four
  enumeration-typed options are not read from the store: each of their getters returns
  the value last assigned to the option, whatever the store holds and whatever is
  written to it or assigned to another enumeration-typed option afterwards; after
  construction that is the argument the constructor was given, and so the documented
  default on an object constructed with the default arguments.
\<close>

theorem C7_unset_options_give_defaults:
  "(attrs c (lower ''height'') = None \<longrightarrow> height c = Inr PNone)
   \<and> (attrs c (lower ''aspectRatio'') = None \<longrightarrow> aspect_ratio c = Inr (PFloat (Fin (16 / 9))))
   \<and> (attrs c (lower ''viewportFraction'') = None \<longrightarrow> viewport_fraction c = Inr (PFloat (Fin (8 / 10))))
   \<and> (attrs c (lower ''initialPage'') = None \<longrightarrow> initial_page c = Inr (PInt 0))
   \<and> (attrs c (lower ''enableInfiniteScroll'') = None \<longrightarrow> enable_infinite_scroll c = Inr (PBool True))
   \<and> (attrs c (lower ''disableGesture'') = None \<longrightarrow> disablegesture c = Inr (PBool False))
   \<and> (attrs c (lower ''enableindicator'') = None \<longrightarrow> enable_indicator c = Inr (PBool True))
   \<and> (attrs c (lower ''indicatorwidth'') = None \<longrightarrow> indicatorwidth c = Inr PNone)
   \<and> (attrs c (lower ''indicatorInactiveColor'') = None \<longrightarrow> indicator_inactive_color c = Inr PNone)
   \<and> (attrs c (lower ''indicatorActiveColor'') = None \<longrightarrow> indicator_active_color c = Inr PNone)
   \<and> (attrs c (lower ''build_on_demand'') = None \<longrightarrow> build_on_demand c = Inr (PBool False))
   \<and> (attrs c (lower ''animateToClosest'') = None \<longrightarrow> animate_to_closest c = Inr (PBool True))
   \<and> (attrs c (lower ''reverse'') = None \<longrightarrow> reverse c = Inr (PBool False))
   \<and> (attrs c (lower ''autoPlay'') = None \<longrightarrow> auto_play c = Inr (PBool False))
   \<and> (attrs c (lower ''autoPlayInterval'') = None \<longrightarrow> auto_play_interval c = Inr (PInt 4000))
   \<and> (attrs c (lower ''autoPlayAnimationDuration'') = None \<longrightarrow> auto_play_animation_duration c = Inr (PInt 800))
   \<and> (attrs c (lower ''enlargeCenterPage'') = None \<longrightarrow> enlarge_center_page c = Inr (PBool False))
   \<and> (attrs c (lower ''enlargeFactor'') = None \<longrightarrow> enlarge_factor c = Inr (PFloat (Fin (3 / 10))))
   \<and> (attrs c (lower ''pageSnapping'') = None \<longrightarrow> page_snapping c = Inr (PBool True))
   \<and> (attrs c (lower ''pauseAutoPlayOnTouch'') = None \<longrightarrow> pause_auto_play_on_touch c = Inr (PBool True))
   \<and> (attrs c (lower ''pauseAutoPlayOnManualNavigate'') = None \<longrightarrow> pause_auto_play_on_manual_navigate c = Inr (PBool True))
   \<and> (attrs c (lower ''pauseAutoPlayInFiniteScroll'') = None \<longrightarrow> pause_auto_play_in_finite_scroll c = Inr (PBool False))
   \<and> (attrs c (lower ''disableCenter'') = None \<longrightarrow> disable_center c = Inr (PBool False))
   \<and> (attrs c (lower ''padEnds'') = None \<longrightarrow> pad_ends c = Inr (PBool True))
   \<and> auto_play_curve (set_auto_play_curve v1 c) = v1
   \<and> enlarge_strategy (set_enlarge_strategy v2 c) = v2
   \<and> scroll_direction (set_scroll_direction v3 c) = v3
   \<and> clip_behavior (set_clip_behavior v4 c) = v4
   \<and> auto_play_curve (c\<lparr>attrs := m\<rparr>) = auto_play_curve c
   \<and> enlarge_strategy (c\<lparr>attrs := m\<rparr>) = enlarge_strategy c
   \<and> scroll_direction (c\<lparr>attrs := m\<rparr>) = scroll_direction c
   \<and> clip_behavior (c\<lparr>attrs := m\<rparr>) = clip_behavior c
   \<and> auto_play_curve (set_attr nm x c) = auto_play_curve c
   \<and> enlarge_strategy (set_attr nm x c) = enlarge_strategy c
   \<and> scroll_direction (set_attr nm x c) = scroll_direction c
   \<and> clip_behavior (set_attr nm x c) = clip_behavior c
   \<and> auto_play_curve (set_enlarge_strategy v2 c) = auto_play_curve c
   \<and> auto_play_curve (set_scroll_direction v3 c) = auto_play_curve c
   \<and> auto_play_curve (set_clip_behavior v4 c) = auto_play_curve c
   \<and> enlarge_strategy (set_auto_play_curve v1 c) = enlarge_strategy c
   \<and> enlarge_strategy (set_scroll_direction v3 c) = enlarge_strategy c
   \<and> enlarge_strategy (set_clip_behavior v4 c) = enlarge_strategy c
   \<and> scroll_direction (set_auto_play_curve v1 c) = scroll_direction c
   \<and> scroll_direction (set_enlarge_strategy v2 c) = scroll_direction c
   \<and> scroll_direction (set_clip_behavior v4 c) = scroll_direction c
   \<and> clip_behavior (set_auto_play_curve v1 c) = clip_behavior c
   \<and> clip_behavior (set_enlarge_strategy v2 c) = clip_behavior c
   \<and> clip_behavior (set_scroll_direction v3 c) = clip_behavior c
   \<and> auto_play_curve (Carousel_init a :: ('c, 'h) Carousel) = arg_auto_play_curve a
   \<and> enlarge_strategy (Carousel_init a :: ('c, 'h) Carousel) = arg_enlarge_strategy a
   \<and> scroll_direction (Carousel_init a :: ('c, 'h) Carousel) = arg_scroll_direction a
   \<and> clip_behavior (Carousel_init a :: ('c, 'h) Carousel) = arg_clip_behavior a
   \<and> auto_play_curve (Carousel_init (default_args cs) :: ('c, 'h) Carousel) = Member FAST_OUT_SLOW_IN
   \<and> enlarge_strategy (Carousel_init (default_args cs) :: ('c, 'h) Carousel) = Member SCALE
   \<and> scroll_direction (Carousel_init (default_args cs) :: ('c, 'h) Carousel) = Member HORIZONTAL
   \<and> clip_behavior (Carousel_init (default_args cs) :: ('c, 'h) Carousel) = Member HARD_EDGE"
  for c :: "('c, 'h) Carousel"
  by (simp add: getter_defs enum_getter_defs get_attr_unset Carousel_init_enums default_args_def
        setter_defs set_attr_fields)

text \<open>
  On the object \<^verbatim>\<open>Carousel(controls, height=None, aspect_ratio=None, ...)\<close> each of the 24
  attributes is unset.
\<close>

lemma unset_args_attrs:
  "attrs (Carousel_init (unset_args cs)) (lower ''height'') = None
   \<and> attrs (Carousel_init (unset_args cs)) (lower ''aspectRatio'') = None
   \<and> attrs (Carousel_init (unset_args cs)) (lower ''viewportFraction'') = None
   \<and> attrs (Carousel_init (unset_args cs)) (lower ''initialPage'') = None
   \<and> attrs (Carousel_init (unset_args cs)) (lower ''enableInfiniteScroll'') = None
   \<and> attrs (Carousel_init (unset_args cs)) (lower ''disableGesture'') = None
   \<and> attrs (Carousel_init (unset_args cs)) (lower ''enableindicator'') = None
   \<and> attrs (Carousel_init (unset_args cs)) (lower ''indicatorwidth'') = None
   \<and> attrs (Carousel_init (unset_args cs)) (lower ''indicatorInactiveColor'') = None
   \<and> attrs (Carousel_init (unset_args cs)) (lower ''indicatorActiveColor'') = None
   \<and> attrs (Carousel_init (unset_args cs)) (lower ''build_on_demand'') = None
   \<and> attrs (Carousel_init (unset_args cs)) (lower ''animateToClosest'') = None
   \<and> attrs (Carousel_init (unset_args cs)) (lower ''reverse'') = None
   \<and> attrs (Carousel_init (unset_args cs)) (lower ''autoPlay'') = None
   \<and> attrs (Carousel_init (unset_args cs)) (lower ''autoPlayInterval'') = None
   \<and> attrs (Carousel_init (unset_args cs)) (lower ''autoPlayAnimationDuration'') = None
   \<and> attrs (Carousel_init (unset_args cs)) (lower ''enlargeCenterPage'') = None
   \<and> attrs (Carousel_init (unset_args cs)) (lower ''enlargeFactor'') = None
   \<and> attrs (Carousel_init (unset_args cs)) (lower ''pageSnapping'') = None
   \<and> attrs (Carousel_init (unset_args cs)) (lower ''pauseAutoPlayOnTouch'') = None
   \<and> attrs (Carousel_init (unset_args cs)) (lower ''pauseAutoPlayOnManualNavigate'') = None
   \<and> attrs (Carousel_init (unset_args cs)) (lower ''pauseAutoPlayInFiniteScroll'') = None
   \<and> attrs (Carousel_init (unset_args cs)) (lower ''disableCenter'') = None
   \<and> attrs (Carousel_init (unset_args cs)) (lower ''padEnds'') = None"
  by (simp add: Carousel_init_def setter_defs unset_args_def default_args_def new_control_def
        set_attr_def py_eq_def lower_def lower_chr_def)

text \<open>The theorem above on that object: the attributes are unset and the getters return the defaults.\<close>

theorem C7_unset_options_witness:
  "attrs (Carousel_init (unset_args (Some [])) :: (nat, nat) Carousel) (lower ''height'') = None
   \<and> height (Carousel_init (unset_args (Some [])) :: (nat, nat) Carousel) = Inr PNone
   \<and> attrs (Carousel_init (unset_args (Some [])) :: (nat, nat) Carousel) (lower ''aspectRatio'') = None
   \<and> aspect_ratio (Carousel_init (unset_args (Some [])) :: (nat, nat) Carousel) = Inr (PFloat (Fin (16 / 9)))
   \<and> attrs (Carousel_init (unset_args (Some [])) :: (nat, nat) Carousel) (lower ''viewportFraction'') = None
   \<and> viewport_fraction (Carousel_init (unset_args (Some [])) :: (nat, nat) Carousel) = Inr (PFloat (Fin (8 / 10)))
   \<and> attrs (Carousel_init (unset_args (Some [])) :: (nat, nat) Carousel) (lower ''initialPage'') = None
   \<and> initial_page (Carousel_init (unset_args (Some [])) :: (nat, nat) Carousel) = Inr (PInt 0)
   \<and> attrs (Carousel_init (unset_args (Some [])) :: (nat, nat) Carousel) (lower ''enableInfiniteScroll'') = None
   \<and> enable_infinite_scroll (Carousel_init (unset_args (Some [])) :: (nat, nat) Carousel) = Inr (PBool True)
   \<and> attrs (Carousel_init (unset_args (Some [])) :: (nat, nat) Carousel) (lower ''disableGesture'') = None
   \<and> disablegesture (Carousel_init (unset_args (Some [])) :: (nat, nat) Carousel) = Inr (PBool False)
   \<and> attrs (Carousel_init (unset_args (Some [])) :: (nat, nat) Carousel) (lower ''enableindicator'') = None
   \<and> enable_indicator (Carousel_init (unset_args (Some [])) :: (nat, nat) Carousel) = Inr (PBool True)
   \<and> attrs (Carousel_init (unset_args (Some [])) :: (nat, nat) Carousel) (lower ''indicatorwidth'') = None
   \<and> indicatorwidth (Carousel_init (unset_args (Some [])) :: (nat, nat) Carousel) = Inr PNone
   \<and> attrs (Carousel_init (unset_args (Some [])) :: (nat, nat) Carousel) (lower ''indicatorInactiveColor'') = None
   \<and> indicator_inactive_color (Carousel_init (unset_args (Some [])) :: (nat, nat) Carousel) = Inr PNone
   \<and> attrs (Carousel_init (unset_args (Some [])) :: (nat, nat) Carousel) (lower ''indicatorActiveColor'') = None
   \<and> indicator_active_color (Carousel_init (unset_args (Some [])) :: (nat, nat) Carousel) = Inr PNone
   \<and> attrs (Carousel_init (unset_args (Some [])) :: (nat, nat) Carousel) (lower ''build_on_demand'') = None
   \<and> build_on_demand (Carousel_init (unset_args (Some [])) :: (nat, nat) Carousel) = Inr (PBool False)
   \<and> attrs (Carousel_init (unset_args (Some [])) :: (nat, nat) Carousel) (lower ''animateToClosest'') = None
   \<and> animate_to_closest (Carousel_init (unset_args (Some [])) :: (nat, nat) Carousel) = Inr (PBool True)
   \<and> attrs (Carousel_init (unset_args (Some [])) :: (nat, nat) Carousel) (lower ''reverse'') = None
   \<and> reverse (Carousel_init (unset_args (Some [])) :: (nat, nat) Carousel) = Inr (PBool False)
   \<and> attrs (Carousel_init (unset_args (Some [])) :: (nat, nat) Carousel) (lower ''autoPlay'') = None
   \<and> auto_play (Carousel_init (unset_args (Some [])) :: (nat, nat) Carousel) = Inr (PBool False)
   \<and> attrs (Carousel_init (unset_args (Some [])) :: (nat, nat) Carousel) (lower ''autoPlayInterval'') = None
   \<and> auto_play_interval (Carousel_init (unset_args (Some [])) :: (nat, nat) Carousel) = Inr (PInt 4000)
   \<and> attrs (Carousel_init (unset_args (Some [])) :: (nat, nat) Carousel) (lower ''autoPlayAnimationDuration'') = None
   \<and> auto_play_animation_duration (Carousel_init (unset_args (Some [])) :: (nat, nat) Carousel) = Inr (PInt 800)
   \<and> attrs (Carousel_init (unset_args (Some [])) :: (nat, nat) Carousel) (lower ''enlargeCenterPage'') = None
   \<and> enlarge_center_page (Carousel_init (unset_args (Some [])) :: (nat, nat) Carousel) = Inr (PBool False)
   \<and> attrs (Carousel_init (unset_args (Some [])) :: (nat, nat) Carousel) (lower ''enlargeFactor'') = None
   \<and> enlarge_factor (Carousel_init (unset_args (Some [])) :: (nat, nat) Carousel) = Inr (PFloat (Fin (3 / 10)))
   \<and> attrs (Carousel_init (unset_args (Some [])) :: (nat, nat) Carousel) (lower ''pageSnapping'') = None
   \<and> page_snapping (Carousel_init (unset_args (Some [])) :: (nat, nat) Carousel) = Inr (PBool True)
   \<and> attrs (Carousel_init (unset_args (Some [])) :: (nat, nat) Carousel) (lower ''pauseAutoPlayOnTouch'') = None
   \<and> pause_auto_play_on_touch (Carousel_init (unset_args (Some [])) :: (nat, nat) Carousel) = Inr (PBool True)
   \<and> attrs (Carousel_init (unset_args (Some [])) :: (nat, nat) Carousel) (lower ''pauseAutoPlayOnManualNavigate'') = None
   \<and> pause_auto_play_on_manual_navigate (Carousel_init (unset_args (Some [])) :: (nat, nat) Carousel) = Inr (PBool True)
   \<and> attrs (Carousel_init (unset_args (Some [])) :: (nat, nat) Carousel) (lower ''pauseAutoPlayInFiniteScroll'') = None
   \<and> pause_auto_play_in_finite_scroll (Carousel_init (unset_args (Some [])) :: (nat, nat) Carousel) = Inr (PBool False)
   \<and> attrs (Carousel_init (unset_args (Some [])) :: (nat, nat) Carousel) (lower ''disableCenter'') = None
   \<and> disable_center (Carousel_init (unset_args (Some [])) :: (nat, nat) Carousel) = Inr (PBool False)
   \<and> attrs (Carousel_init (unset_args (Some [])) :: (nat, nat) Carousel) (lower ''padEnds'') = None
   \<and> pad_ends (Carousel_init (unset_args (Some [])) :: (nat, nat) Carousel) = Inr (PBool True)"
  using C7_unset_options_give_defaults
          [where c = "Carousel_init (unset_args (Some [])) :: (nat, nat) Carousel"
             and cs = "Some []" and a = "unset_args (Some [])" and m = "Map.empty"
             and nm = "[]" and x = "PNone"
             and ?v1.0 = "Member LINEAR" and ?v2.0 = "Member ZOOM"
             and ?v3.0 = "Member VERTICAL" and ?v4.0 = "Member NONE"]
  by (simp add: unset_args_attrs)

text \<open>
  Claim C7, as stated, fails for an enumeration-typed option: on the object constructed
  with \<^verbatim>\<open>clip_behavior=None\<close> the attribute \<^verbatim>\<open>clipBehavior\<close> is unset, and the getter
  returns \<^verbatim>\<open>None\<close>, not \<^verbatim>\<open>HARD_EDGE\<close>.
\<close>

theorem C7_enum_getter_counterexample:
  "attrs (Carousel_init ((default_args (Some []))\<lparr>arg_clip_behavior := Other PNone\<rparr>) :: (nat, nat) Carousel)
       (lower ''clipBehavior'') = None
   \<and> clip_behavior (Carousel_init ((default_args (Some []))\<lparr>arg_clip_behavior := Other PNone\<rparr>) :: (nat, nat) Carousel)
       \<noteq> Member HARD_EDGE"
  by (simp add: Carousel_init_def setter_defs default_args_def new_control_def clip_behavior_def
        set_attr_def py_eq_def lower_def lower_chr_def)

text \<open>
  On an object constructed with the default arguments the attributes are set, to the
  defaults, and the getters return them.
\<close>

lemma default_construction:
  "aspect_ratio (Carousel_init (default_args cs)) = Inr (PFloat (Fin (16 / 9)))"
  "height (Carousel_init (default_args cs)) = Inr PNone"
  "auto_play_interval (Carousel_init (default_args cs)) = Inr (PInt 4000)"
  by (simp_all add: Carousel_init_def setter_defs default_args_def new_control_def getter_defs
        set_attr_def get_attr_def py_eq_def lower_def lower_chr_def)

section \<open>Event handlers\<close>

lemma set_on_scrolled_keeps_change:
  "event_handlers (foldl (\<lambda>c g. set_on_scrolled g c) c gs) ''change'' = event_handlers c ''change''
   \<and> priv_on_change (foldl (\<lambda>c g. set_on_scrolled g c) c gs) = priv_on_change c"
  by (induction gs arbitrary: c) (simp_all add: set_on_scrolled_def add_event_handler_def)

lemma set_on_change_keeps_scrolled:
  "event_handlers (foldl (\<lambda>c g. set_on_change g c) c gs) ''scrolled'' = event_handlers c ''scrolled''
   \<and> priv_on_scrolled (foldl (\<lambda>c g. set_on_change g c) c gs) = priv_on_scrolled c"
  by (induction gs arbitrary: c) (simp_all add: set_on_change_def add_event_handler_def)

text \<open>
  Claim C8. Whatever was assigned to \<^verbatim>\<open>on_change\<close> before (the handlers \<open>hs\<close>, on any
  object), after the assignment of \<open>h\<close>, and after any later assignments \<open>gs\<close> to the
  other property, an incoming \<^verbatim>\<open>change\<close> event calls no handler when \<open>h\<close> is \<^verbatim>\<open>None\<close>,
  and otherwise calls \<open>h\<close> alone, once, with the parsed event (or the parsing raises and
  nothing is called). The getter returns \<open>h\<close>. Likewise for \<^verbatim>\<open>on_scrolled\<close>.
\<close>

theorem C8_handler_replace_on_set:
  "fire_event \<lparr>target = t, name = ''change'', data = d\<rparr>
       (foldl (\<lambda>c g. set_on_scrolled g c)
          (set_on_change h (foldl (\<lambda>c g. set_on_change g c) c hs)) gs) =
     (case h of
        None \<Rightarrow> Inr []
      | Some f \<Rightarrow>
          (case CarouselChangeEvent_init \<lparr>target = t, name = ''change'', data = d\<rparr> of
             Inl err \<Rightarrow> Inl err
           | Inr ev \<Rightarrow> Inr [ChangeCall f ev]))
   \<and> on_change (foldl (\<lambda>c g. set_on_scrolled g c)
          (set_on_change h (foldl (\<lambda>c g. set_on_change g c) c hs)) gs) = h
   \<and> fire_event \<lparr>target = t, name = ''scrolled'', data = d\<rparr>
       (foldl (\<lambda>c g. set_on_change g c)
          (set_on_scrolled h (foldl (\<lambda>c g. set_on_scrolled g c) c hs)) gs) =
     (case h of
        None \<Rightarrow> Inr []
      | Some f \<Rightarrow>
          (case CarouselScrolledEvent_init \<lparr>target = t, name = ''scrolled'', data = d\<rparr> of
             Inl err \<Rightarrow> Inl err
           | Inr ev \<Rightarrow> Inr [ScrolledCall f ev]))
   \<and> on_scrolled (foldl (\<lambda>c g. set_on_change g c)
          (set_on_scrolled h (foldl (\<lambda>c g. set_on_scrolled g c) c hs)) gs) = h"
  by (simp add: fire_event_def on_change_def on_scrolled_def
        set_on_scrolled_keeps_change set_on_change_keeps_scrolled)
     (simp add: set_on_change_def set_on_scrolled_def add_event_handler_def split: option.split)

section \<open>Child controls\<close>

lemma set_controls_fold:
  "priv_controls (foldl (\<lambda>c v. set_controls v c) c vs) =
     (if vs = [] then priv_controls c else Some (case last vs of None \<Rightarrow> [] | Some l \<Rightarrow> l))"
  by (induction vs arbitrary: c) (simp_all add: set_controls_def)

text \<open>
  Claim C10. Assigning \<^verbatim>\<open>None\<close> to \<^verbatim>\<open>controls\<close> stores the empty list. After the
  construction and any sequence \<open>vs\<close> of assignments, the getter and \<^verbatim>\<open>_get_children\<close>
  return a list, never \<^verbatim>\<open>None\<close>: the list assigned last, or the empty list when \<^verbatim>\<open>None\<close>
  was assigned last.
\<close>

theorem C10_controls_never_None:
  "controls (foldl (\<lambda>c v. set_controls v c) (Carousel_init a) vs) =
     Some (case last (arg_controls a # vs) of None \<Rightarrow> [] | Some l \<Rightarrow> l)
   \<and> get_children (foldl (\<lambda>c v. set_controls v c) (Carousel_init a) vs) =
     Some (case last (arg_controls a # vs) of None \<Rightarrow> [] | Some l \<Rightarrow> l)
   \<and> controls (set_controls None c) = Some []
   \<and> get_children (set_controls None c) = Some []"
  by (simp add: controls_def get_children_def set_controls_fold Carousel_init_controls)
     (simp add: set_controls_def)

end
